theory Spec2Isabelle
  imports Main "HOL-Library.Char_ord" "HOL-Library.List_Lexorder" "HOL-Library.Multiset"
begin

section \<open>Data model (types.ts)\<close>

text \<open>
  \<^verbatim>\<open>TaskType\<close> is the string enum of the source. A JavaScript \<^verbatim>\<open>number\<close> is modelled as
  far as this program produces one: \<^verbatim>\<open>frequencyDays\<close> is \<^verbatim>\<open>Number(newTaskFreq)\<close>, where
  \<^verbatim>\<open>newTaskFreq\<close> is \<^verbatim>\<open>1\<close> or the result of \<^verbatim>\<open>parseInt\<close>, that is an integer or NaN.

  An ISO date string (\<^verbatim>\<open>toISOString()\<close>) is represented by the time value it encodes
  (milliseconds since the epoch, UTC); \<^verbatim>\<open>new Date(iso)\<close> reads that value back.
  The fields \<^verbatim>\<open>id\<close> and \<^verbatim>\<open>type\<close> are named \<open>pet_id\<close>, \<open>task_id\<close> and \<open>task_type\<close>.
\<close>

datatype TaskType = PILL | NAILS | EARS | OTHER

datatype number = NaN | Num int

type_synonym timevalue = int

record Pet =
  pet_id :: string
  name :: string
  breed :: string
  weight :: "number option"
  imageUrl :: string

record Task =
  task_id :: string
  petId :: string
  task_type :: TaskType
  title :: string
  frequencyDays :: number
  lastDoneDate :: "timevalue option"
  nextDueDate :: timevalue

section \<open>The IndexedDB object stores and localStorage\<close>

text \<open>
  An object store created with \<^verbatim>\<open>{ keyPath: 'id' }\<close> holds at most one record per key and
  keeps its records in ascending key order. It is modelled as the list of its records in
  that order; \<open>key\<close> is the key path. \<open>os_wf\<close> is the representation invariant.
\<close>

fun os_put :: "('r \<Rightarrow> string) \<Rightarrow> 'r \<Rightarrow> 'r list \<Rightarrow> 'r list" where
  "os_put key r [] = [r]"
| "os_put key r (x # xs) =
     (if key r = key x then r # xs
      else if key r < key x then r # x # xs
      else x # os_put key r xs)"

definition os_delete :: "('r \<Rightarrow> string) \<Rightarrow> string \<Rightarrow> 'r list \<Rightarrow> 'r list" where
  "os_delete key k xs = filter (\<lambda>x. key x \<noteq> k) xs"

definition os_get :: "('r \<Rightarrow> string) \<Rightarrow> string \<Rightarrow> 'r list \<Rightarrow> 'r option" where
  "os_get key k xs = find (\<lambda>x. key x = k) xs"

definition os_getAll :: "'r list \<Rightarrow> 'r list" where
  "os_getAll xs = xs"

definition os_clear :: "'r list \<Rightarrow> 'r list" where
  "os_clear xs = []"

definition os_wf :: "('r \<Rightarrow> string) \<Rightarrow> 'r list \<Rightarrow> bool" where
  "os_wf key xs = sorted_wrt (<) (map key xs)"

text \<open>
  The state the service works on: the two object stores of \<^verbatim>\<open>DLiveDB\<close> and the
  \<^verbatim>\<open>localStorage\<close> of the page (\<^verbatim>\<open>getItem\<close> of an absent key is \<^verbatim>\<open>null\<close>, here \<open>None\<close>).
\<close>

record world =
  petsStore :: "Pet list"
  tasksStore :: "Task list"
  localStorage :: "string \<rightharpoonup> string"

definition wf_world :: "world \<Rightarrow> bool" where
  "wf_world w = (os_wf pet_id (petsStore w) \<and> os_wf task_id (tasksStore w))"

definition THEME_KEY :: string where
  "THEME_KEY = ''dlive_theme''"

definition NOTIFICATIONS_KEY :: string where
  "NOTIFICATIONS_KEY = ''dlive_notifications''"

text \<open>
  What the storage engine does during one call is an input of the model: nothing goes
  wrong, \<^verbatim>\<open>indexedDB.open\<close> fires \<^verbatim>\<open>onerror\<close>, or a request of the transaction fires
  \<^verbatim>\<open>onerror\<close> (which bubbles to the transaction and aborts it, undoing its writes).
  A promise is resolved, rejected or never settled.
\<close>

datatype fault = NoFault | OpenFault | RequestFault

datatype error = OpenError | RequestError

datatype 'a promise = Resolved 'a | Rejected error | Pending

definition openDB :: "fault \<Rightarrow> error + unit" where
  "openDB f = (if f = OpenFault then Inl OpenError else Inr ())"

section \<open>StorageService\<close>

text \<open>
  \<^verbatim>\<open>getPets\<close> and \<^verbatim>\<open>getTasks\<close>: the \<^verbatim>\<open>try\<close> block awaits \<^verbatim>\<open>openDB()\<close> and then
  \<^emph>\<open>returns\<close> the request promise without awaiting it. A rejection of \<^verbatim>\<open>openDB()\<close> is
  thrown inside the \<^verbatim>\<open>try\<close> and caught; a rejection of the returned promise settles the
  promise of the async function after the \<^verbatim>\<open>try\<close> block has been left, so the \<^verbatim>\<open>catch\<close>
  clause does not see it.
\<close>

definition getPets :: "fault \<Rightarrow> world \<Rightarrow> Pet list promise" where
  "getPets f w =
     (case openDB f of
        Inl e \<Rightarrow> Resolved []
      | Inr db \<Rightarrow>
          if f = RequestFault then Rejected RequestError
          else Resolved (os_getAll (petsStore w)))"

definition getTasks :: "fault \<Rightarrow> world \<Rightarrow> Task list promise" where
  "getTasks f w =
     (case openDB f of
        Inl e \<Rightarrow> Resolved []
      | Inr db \<Rightarrow>
          if f = RequestFault then Rejected RequestError
          else Resolved (os_getAll (tasksStore w)))"

definition savePet :: "fault \<Rightarrow> Pet \<Rightarrow> world \<Rightarrow> unit promise \<times> world" where
  "savePet f pet w =
     (case openDB f of
        Inl e \<Rightarrow> (Rejected e, w)
      | Inr db \<Rightarrow>
          if f = RequestFault then (Rejected RequestError, w)
          else (Resolved (), w\<lparr>petsStore := os_put pet_id pet (petsStore w)\<rparr>))"

definition saveTask :: "fault \<Rightarrow> Task \<Rightarrow> world \<Rightarrow> unit promise \<times> world" where
  "saveTask f task w =
     (case openDB f of
        Inl e \<Rightarrow> (Rejected e, w)
      | Inr db \<Rightarrow>
          if f = RequestFault then (Rejected RequestError, w)
          else (Resolved (), w\<lparr>tasksStore := os_put task_id task (tasksStore w)\<rparr>))"

definition deleteTask :: "fault \<Rightarrow> string \<Rightarrow> world \<Rightarrow> unit promise \<times> world" where
  "deleteTask f k w =
     (case openDB f of
        Inl e \<Rightarrow> (Rejected e, w)
      | Inr db \<Rightarrow>
          if f = RequestFault then (Rejected RequestError, w)
          else (Resolved (), w\<lparr>tasksStore := os_delete task_id k (tasksStore w)\<rparr>))"

text \<open>
  The cursor of \<^verbatim>\<open>deletePet\<close> visits the task records in key order; \<^verbatim>\<open>cursor.delete()\<close>
  removes the record the cursor is on, \<^verbatim>\<open>cursor.continue()\<close> moves on. The first list is
  what is still to be visited, the second the content of the store.
\<close>

fun deletePet_cursor :: "string \<Rightarrow> Task list \<Rightarrow> Task list \<Rightarrow> Task list" where
  "deletePet_cursor k [] store = store"
| "deletePet_cursor k (task # rest) store =
     deletePet_cursor k rest
       (if petId task = k then os_delete task_id (task_id task) store else store)"

definition deletePet :: "fault \<Rightarrow> string \<Rightarrow> world \<Rightarrow> unit promise \<times> world" where
  "deletePet f k w =
     (case openDB f of
        Inl e \<Rightarrow> (Rejected e, w)
      | Inr db \<Rightarrow>
          if f = RequestFault then (Rejected RequestError, w)
          else (Resolved (),
                w\<lparr>petsStore := os_delete pet_id k (petsStore w),
                  tasksStore := deletePet_cursor k (tasksStore w) (tasksStore w)\<rparr>))"

text \<open>
  \<^verbatim>\<open>clearAllData\<close> awaits \<^verbatim>\<open>openDB()\<close> first, so a failed open rejects before anything
  is touched. The two \<^verbatim>\<open>removeItem\<close> calls are synchronous and outside the transaction;
  the returned promise has an \<^verbatim>\<open>oncomplete\<close> handler only, so it never settles when the
  transaction aborts.
\<close>

definition clearAllData :: "fault \<Rightarrow> world \<Rightarrow> unit promise \<times> world" where
  "clearAllData f w =
     (case openDB f of
        Inl e \<Rightarrow> (Rejected e, w)
      | Inr db \<Rightarrow>
          (let ls = ((localStorage w)(THEME_KEY := None))(NOTIFICATIONS_KEY := None)
           in if f = RequestFault then (Pending, w\<lparr>localStorage := ls\<rparr>)
              else (Resolved (),
                    w\<lparr>petsStore := os_clear (petsStore w),
                      tasksStore := os_clear (tasksStore w),
                      localStorage := ls\<rparr>)))"

text \<open>
  \<^verbatim>\<open>getTheme\<close>: \<^verbatim>\<open>localStorage.getItem(THEME_KEY) || 'light'\<close>; the empty string is falsy.
\<close>

definition getTheme :: "world \<Rightarrow> string" where
  "getTheme w =
     (case localStorage w THEME_KEY of
        None \<Rightarrow> ''light''
      | Some v \<Rightarrow> if v = [] then ''light'' else v)"

definition saveTheme :: "string \<Rightarrow> world \<Rightarrow> world" where
  "saveTheme theme w = w\<lparr>localStorage := (localStorage w)(THEME_KEY \<mapsto> theme)\<rparr>"

definition getNotificationSettings :: "world \<Rightarrow> bool" where
  "getNotificationSettings w = (localStorage w NOTIFICATIONS_KEY = Some ''true'')"

definition saveNotificationSettings :: "bool \<Rightarrow> world \<Rightarrow> world" where
  "saveNotificationSettings enabled w =
     w\<lparr>localStorage :=
         (localStorage w)(NOTIFICATIONS_KEY \<mapsto> (if enabled then ''true'' else ''false''))\<rparr>"

section \<open>Dates (the ECMAScript Date operations the program calls)\<close>

text \<open>
  Time values are integers, milliseconds since the epoch; the time value of an invalid
  \<^verbatim>\<open>Date\<close> (NaN) is \<open>None\<close>. The day and calendar functions follow the definitions of the
  language standard (Day, TimeWithinDay, DaysInYear, DayFromYear, YearFromTime, InLeapYear,
  MonthFromTime, DateFromTime, WeekDay, MakeDay, MakeDate, TimeClip). The offset of local
  time, \<^verbatim>\<open>LocalTZA(t, isUTC)\<close>, belongs to the host and is a parameter.
\<close>

definition msPerDay :: int where
  "msPerDay = 86400000"

definition Day :: "int \<Rightarrow> int" where
  "Day t = t div msPerDay"

definition TimeWithinDay :: "int \<Rightarrow> int" where
  "TimeWithinDay t = t mod msPerDay"

definition DaysInYear :: "int \<Rightarrow> int" where
  "DaysInYear y =
     (if y mod 4 \<noteq> 0 then 365
      else if y mod 100 \<noteq> 0 then 366
      else if y mod 400 \<noteq> 0 then 365
      else 366)"

definition DayFromYear :: "int \<Rightarrow> int" where
  "DayFromYear y =
     365 * (y - 1970) + (y - 1969) div 4 - (y - 1901) div 100 + (y - 1601) div 400"

text \<open>
  \<open>YearFromTime t\<close> is the largest \<open>y\<close> with \<open>DayFromYear y \<le> Day t\<close>; it is computed from
  the mean year length of 146097 / 400 days, corrected by at most one year.
\<close>

definition YearFromTime :: "int \<Rightarrow> int" where
  "YearFromTime t =
     (let d = Day t; y = 1970 + (400 * d) div 146097
      in if d < DayFromYear y then y - 1
         else if DayFromYear (y + 1) \<le> d then y + 1
         else y)"

definition InLeapYear :: "int \<Rightarrow> int" where
  "InLeapYear t = (if DaysInYear (YearFromTime t) = 366 then 1 else 0)"

definition DayWithinYear :: "int \<Rightarrow> int" where
  "DayWithinYear t = Day t - DayFromYear (YearFromTime t)"

definition MonthFromTime :: "int \<Rightarrow> int" where
  "MonthFromTime t =
     (let d = DayWithinYear t; l = InLeapYear t
      in if d < 31 then 0
         else if d < 59 + l then 1
         else if d < 90 + l then 2
         else if d < 120 + l then 3
         else if d < 151 + l then 4
         else if d < 181 + l then 5
         else if d < 212 + l then 6
         else if d < 243 + l then 7
         else if d < 273 + l then 8
         else if d < 304 + l then 9
         else if d < 334 + l then 10
         else 11)"

definition DateFromTime :: "int \<Rightarrow> int" where
  "DateFromTime t =
     (let d = DayWithinYear t; l = InLeapYear t; m = MonthFromTime t
      in if m = 0 then d + 1
         else if m = 1 then d - 30
         else if m = 2 then d - 58 - l
         else if m = 3 then d - 89 - l
         else if m = 4 then d - 119 - l
         else if m = 5 then d - 150 - l
         else if m = 6 then d - 180 - l
         else if m = 7 then d - 211 - l
         else if m = 8 then d - 242 - l
         else if m = 9 then d - 272 - l
         else if m = 10 then d - 303 - l
         else d - 333 - l)"

definition WeekDay :: "int \<Rightarrow> int" where
  "WeekDay t = (Day t + 4) mod 7"

text \<open>
  \<open>MakeDay year month date\<close>: the day number of the first of the month \<open>mn\<close> of the year
  \<open>ym\<close>, plus \<open>date - 1\<close>. \<open>DayFromMonth\<close> is the number of days of the year before the month.
\<close>

definition DayFromMonth :: "int \<Rightarrow> int \<Rightarrow> int" where
  "DayFromMonth mn l =
     (if mn = 0 then 0
      else if mn = 1 then 31
      else if mn = 2 then 59 + l
      else if mn = 3 then 90 + l
      else if mn = 4 then 120 + l
      else if mn = 5 then 151 + l
      else if mn = 6 then 181 + l
      else if mn = 7 then 212 + l
      else if mn = 8 then 243 + l
      else if mn = 9 then 273 + l
      else if mn = 10 then 304 + l
      else 334 + l)"

definition MakeDay :: "int \<Rightarrow> int \<Rightarrow> int \<Rightarrow> int" where
  "MakeDay year month date =
     (let ym = year + month div 12; mn = month mod 12
      in DayFromYear ym + DayFromMonth mn (if DaysInYear ym = 366 then 1 else 0) + date - 1)"

definition MakeDate :: "int \<Rightarrow> int \<Rightarrow> int" where
  "MakeDate day time = day * msPerDay + time"

definition TimeClip :: "int \<Rightarrow> int option" where
  "TimeClip t = (if \<bar>t\<bar> > 8640000000000000 then None else Some t)"

type_synonym tza = "int \<Rightarrow> bool \<Rightarrow> int"

definition LocalTime :: "tza \<Rightarrow> int \<Rightarrow> int" where
  "LocalTime z t = t + z t True"

definition UTC :: "tza \<Rightarrow> int \<Rightarrow> int" where
  "UTC z t = t - z t False"

text \<open>Addition of two numbers (\<^verbatim>\<open>+\<close>): NaN is absorbing.\<close>

fun num_add :: "number \<Rightarrow> number \<Rightarrow> number" where
  "num_add (Num a) (Num b) = Num (a + b)"
| "num_add _ _ = NaN"

text \<open>\<^verbatim>\<open>Date.prototype.getDate\<close> and \<^verbatim>\<open>setDate\<close> on a valid date with time value \<open>tv\<close>.\<close>

definition getDate :: "tza \<Rightarrow> timevalue \<Rightarrow> number" where
  "getDate z tv = Num (DateFromTime (LocalTime z tv))"

definition setDate :: "tza \<Rightarrow> timevalue \<Rightarrow> number \<Rightarrow> timevalue option" where
  "setDate z tv date =
     (case date of
        NaN \<Rightarrow> None
      | Num dt \<Rightarrow>
          (let t = LocalTime z tv;
               newDate = MakeDate (MakeDay (YearFromTime t) (MonthFromTime t) dt) (TimeWithinDay t)
           in TimeClip (UTC z newDate)))"

text \<open>
  \<^verbatim>\<open>toISOString\<close> throws a RangeError on an invalid date (\<open>None\<close>), and otherwise gives
  the ISO string, represented by the time value.
\<close>

definition toISOString :: "timevalue option \<Rightarrow> timevalue option" where
  "toISOString d = d"

text \<open>
  \<^verbatim>\<open>toDateString\<close> prints the week day, month, day of the month and year of the local
  time; it is represented by these four components.
\<close>

definition toDateString :: "tza \<Rightarrow> timevalue \<Rightarrow> int \<times> int \<times> int \<times> int" where
  "toDateString z tv =
     (let t = LocalTime z tv in (WeekDay t, MonthFromTime t, DateFromTime t, YearFromTime t))"

text \<open>The host as the program sees it: the clock reading and the local time offset.\<close>

record host =
  clock :: timevalue
  LocalTZA :: tza

section \<open>StorageService.completeTask\<close>

text \<open>
  When \<^verbatim>\<open>toISOString\<close> throws inside the \<^verbatim>\<open>onsuccess\<close> handler, \<^verbatim>\<open>store.put\<close> is not
  reached and the transaction is aborted: neither \<^verbatim>\<open>oncomplete\<close> nor \<^verbatim>\<open>onerror\<close> fires,
  and the promise stays pending.
\<close>

definition completeTask :: "fault \<Rightarrow> host \<Rightarrow> string \<Rightarrow> world \<Rightarrow> unit promise \<times> world" where
  "completeTask f h taskId w =
     (case openDB f of
        Inl e \<Rightarrow> (Rejected e, w)
      | Inr db \<Rightarrow>
          if f = RequestFault then (Rejected RequestError, w)
          else
            (case os_get task_id taskId (tasksStore w) of
               None \<Rightarrow> (Resolved (), w)
             | Some task \<Rightarrow>
                 (let now = clock h;
                      nextDue = setDate (LocalTZA h) now
                                  (num_add (getDate (LocalTZA h) now) (frequencyDays task))
                  in case toISOString nextDue of
                       None \<Rightarrow> (Pending, w)
                     | Some isoDue \<Rightarrow>
                         (Resolved (),
                          w\<lparr>tasksStore :=
                              os_put task_id
                                (task\<lparr>lastDoneDate := Some now, nextDueDate := isoDue\<rparr>)
                                (tasksStore w)\<rparr>))))"

section \<open>The views (App.tsx)\<close>

text \<open>\<^verbatim>\<open>Date.now().toString()\<close>: the decimal digits of the clock reading.\<close>

function digits :: "int \<Rightarrow> string" where
  "digits i =
     (if i < 10 then [''0123456789'' ! nat i]
      else digits (i div 10) @ [''0123456789'' ! nat (i mod 10)])"
  by pat_completeness auto
termination
  by (relation "measure nat") auto

declare digits.simps [simp del]

definition Number_toString :: "int \<Rightarrow> string" where
  "Number_toString i = (if i < 0 then CHR ''-'' # digits (- i) else digits i)"

text \<open>
  \<^verbatim>\<open>PetsView.handleAddTask\<close>. The form state is \<^verbatim>\<open>newTaskTitle\<close>, \<^verbatim>\<open>showAddTask\<close> (a pet id
  or \<^verbatim>\<open>null\<close>), \<^verbatim>\<open>newTaskType\<close> and \<^verbatim>\<open>newTaskFreq\<close>, the last being whatever
  \<^verbatim>\<open>parseInt(e.target.value)\<close> gave for the text of the number field: the \<^verbatim>\<open>min={1}\<close>
  attribute of the field does not change what the field's value can be. The handler reads
  the clock twice, for the id and for \<^verbatim>\<open>nextDueDate\<close>. \<open>None\<close> is the early \<^verbatim>\<open>return\<close>.
  What follows \<^verbatim>\<open>saveTask\<close> (reloading the lists, resetting the form) does not touch the
  store and is left out.
\<close>

record taskForm =
  newTaskTitle :: string
  showAddTask :: "string option"
  newTaskType :: TaskType
  newTaskFreq :: number

definition newTask :: "taskForm \<Rightarrow> timevalue \<Rightarrow> timevalue \<Rightarrow> Task option" where
  "newTask form idNow now =
     (case showAddTask form of
        None \<Rightarrow> None
      | Some pid \<Rightarrow>
          if newTaskTitle form = [] \<or> pid = [] then None
          else Some \<lparr>task_id = Number_toString idNow,
                     petId = pid,
                     task_type = newTaskType form,
                     title = newTaskTitle form,
                     frequencyDays = newTaskFreq form,
                     lastDoneDate = None,
                     nextDueDate = now\<rparr>)"

definition handleAddTask ::
  "fault \<Rightarrow> taskForm \<Rightarrow> timevalue \<Rightarrow> timevalue \<Rightarrow> world \<Rightarrow> unit promise \<times> world" where
  "handleAddTask f form idNow now w =
     (case newTask form idNow now of
        None \<Rightarrow> (Resolved (), w)
      | Some task \<Rightarrow> saveTask f task w)"


text \<open>
  \<^verbatim>\<open>DashboardView.filteredTasks\<close>. The callback calls \<^verbatim>\<open>new Date()\<close> for each task of one
  synchronous pass; the model takes one clock reading for the pass.
\<close>

datatype view_filter = FilterAll | FilterToday

definition filteredTasks :: "view_filter \<Rightarrow> host \<Rightarrow> Task list \<Rightarrow> Task list" where
  "filteredTasks flt h tasks =
     filter (\<lambda>task.
        if flt = FilterAll then True
        else (let dueDate = nextDueDate task; today = clock h
              in dueDate \<le> today
                 \<or> toDateString (LocalTZA h) dueDate = toDateString (LocalTZA h) today))
       tasks"

section \<open>GeminiService.askAssistant\<close>

text \<open>
  The three fixed replies of the source are Russian sentences; they are written here in
  Latin transliteration. What \<^verbatim>\<open>generateContent\<close> does is an input: it throws (or its
  promise rejects), or it gives a response whose \<^verbatim>\<open>text\<close> is \<^verbatim>\<open>undefined\<close> or a string.
\<close>

definition MSG_NO_KEY :: string where
  "MSG_NO_KEY = ''Pozhaluysta, nastroyte API Key dlya raboty pomoshchnika.''"

definition MSG_NO_ANSWER :: string where
  "MSG_NO_ANSWER = ''Izvinite, ya ne smog pridumat otvet.''"

definition MSG_ERROR :: string where
  "MSG_ERROR = ''Proizoshla oshibka pri svyazi s serverom AI. Poprobuyte pozzhe.''"

datatype generateContent = Throws | Response "string option"

definition askAssistant :: "string \<Rightarrow> (string \<Rightarrow> generateContent) \<Rightarrow> string \<Rightarrow> string promise" where
  "askAssistant apiKey api message =
     (if apiKey = [] then Resolved MSG_NO_KEY
      else case api message of
             Throws \<Rightarrow> Resolved MSG_ERROR
           | Response txt \<Rightarrow>
               (case txt of
                  None \<Rightarrow> Resolved MSG_NO_ANSWER
                | Some s \<Rightarrow> if s = [] then Resolved MSG_NO_ANSWER else Resolved s))"

section \<open>Example data\<close>

text \<open>A small store used to run the operations on concrete input.\<close>

definition rex :: Pet where
  "rex = \<lparr>pet_id = ''p1'', name = ''Rex'', breed = ''Collie'', weight = None,
           imageUrl = ''a.jpg''\<rparr>"

definition rex2 :: Pet where
  "rex2 = \<lparr>pet_id = ''p1'', name = ''Rex II'', breed = '''', weight = Some (Num 12),
            imageUrl = ''b.jpg''\<rparr>"

definition tom :: Pet where
  "tom = \<lparr>pet_id = ''p2'', name = ''Tom'', breed = '''', weight = None, imageUrl = ''c.jpg''\<rparr>"

definition pills :: Task where
  "pills = \<lparr>task_id = ''t1'', petId = ''p1'', task_type = PILL, title = ''Pills'',
             frequencyDays = Num 30, lastDoneDate = None, nextDueDate = 1712448000000\<rparr>"

definition nails :: Task where
  "nails = \<lparr>task_id = ''t2'', petId = ''p2'', task_type = NAILS, title = ''Nails'',
             frequencyDays = Num 14, lastDoneDate = Some 1712000000000,
             nextDueDate = 1712534400000\<rparr>"

definition ears :: Task where
  "ears = \<lparr>task_id = ''t3'', petId = ''p1'', task_type = EARS, title = ''Ears'',
            frequencyDays = Num 7, lastDoneDate = None, nextDueDate = 1712361600000\<rparr>"

definition pills2 :: Task where
  "pills2 = \<lparr>task_id = ''t1'', petId = ''p2'', task_type = OTHER, title = ''Drops'',
              frequencyDays = Num 2, lastDoneDate = Some 5, nextDueDate = 7\<rparr>"

definition home :: world where
  "home = \<lparr>petsStore = [rex, tom], tasksStore = [pills, nails, ears],
            localStorage = [THEME_KEY \<mapsto> ''dark'', NOTIFICATIONS_KEY \<mapsto> ''true'']\<rparr>"

lemmas example_defs = rex_def tom_def pills_def nails_def ears_def home_def

section \<open>Calendar-day addition, as the specification words it\<close>

text \<open>
  ``T plus F calendar days, on local date components'': the local day number of \<open>T\<close>
  advanced by \<open>F\<close>, the local time of day kept, and the result read as a local time.
\<close>

definition addCalendarDays :: "tza \<Rightarrow> timevalue \<Rightarrow> int \<Rightarrow> timevalue" where
  "addCalendarDays z T F =
     UTC z (MakeDate (Day (LocalTime z T) + F) (TimeWithinDay (LocalTime z T)))"

text \<open>A host three hours east of Greenwich, at 2024-04-06T22:00:00Z (01:00 local time on April 7).\<close>

definition moscow :: tza where
  "moscow = (\<lambda>t isUTC. 10800000)"

definition night :: host where
  "night = \<lparr>clock = 1712440800000, LocalTZA = moscow\<rparr>"

text \<open>A store with a task whose pet is not stored, and the form of a task with frequency 0.\<close>

definition orphaned :: world where
  "orphaned = \<lparr>petsStore = [tom], tasksStore = [pills, nails], localStorage = Map.empty\<rparr>"

definition zeroFreqForm :: taskForm where
  "zeroFreqForm = \<lparr>newTaskTitle = ''Pills'', showAddTask = Some ''p1'', newTaskType = PILL,
                    newTaskFreq = Num 0\<rparr>"

text \<open>Noon UTC of 2024-01-31 on a host that keeps UTC.\<close>

definition utc :: tza where
  "utc = (\<lambda>t isUTC. 0)"

definition jan31 :: timevalue where
  "jan31 = 1706702400000"

text \<open>
  A host on Central European Time around the change to summer time on 2024-03-31 at
  01:00 UTC: one hour ahead of UTC before, two hours after. A local time in the skipped
  hour is read with the offset before the change.
\<close>

definition berlin :: tza where
  "berlin = (\<lambda>t isUTC.
     if isUTC then (if t < 1711846800000 then 3600000 else 7200000)
     else (if t < 1711846800000 + 7200000 then 3600000 else 7200000))"

text \<open>
  The form of a task whose frequency field was emptied (\<^verbatim>\<open>parseInt('')\<close> is NaN), the task
  \<^verbatim>\<open>handleAddTask\<close> makes of it, and the store after it was saved.
\<close>

definition nanForm :: taskForm where
  "nanForm = \<lparr>newTaskTitle = ''Pills'', showAddTask = Some ''p1'', newTaskType = PILL,
               newTaskFreq = NaN\<rparr>"

definition nanTask :: Task where
  "nanTask = \<lparr>task_id = ''1712440800000'', petId = ''p1'', task_type = PILL, title = ''Pills'',
               frequencyDays = NaN, lastDoneDate = None, nextDueDate = 1712440800001\<rparr>"

definition nanWorld :: world where
  "nanWorld = snd (handleAddTask NoFault nanForm 1712440800000 1712440800001 home)"

section \<open>Object store lemmas\<close>

lemma os_put_set: "set (os_put key r xs) \<subseteq> insert r (set xs)"
  by (induction xs) auto

lemma os_put_wf: "os_wf key xs \<Longrightarrow> os_wf key (os_put key r xs)"
proof (induction xs)
  case Nil
  then show ?case by (simp add: os_wf_def)
next
  case (Cons x xs)
  have sub: "set (os_put key r xs) \<subseteq> insert r (set xs)" by (rule os_put_set)
  from Cons show ?case
    using sub by (auto simp: os_wf_def)
qed

lemma os_delete_wf: "os_wf key xs \<Longrightarrow> os_wf key (os_delete key k xs)"
  unfolding os_wf_def os_delete_def
  by (induction xs) auto

lemma os_put_same: "os_wf key xs \<Longrightarrow> filter (\<lambda>x. key x = key r) (os_put key r xs) = [r]"
proof (induction xs)
  case Nil
  then show ?case by simp
next
  case (Cons x xs)
  have rest: "os_wf key xs" using Cons.prems by (simp add: os_wf_def)
  have above: "\<forall>y\<in>set xs. key x < key y" using Cons.prems by (simp add: os_wf_def)
  show ?case
  proof (cases "key r = key x")
    case True
    then have "filter (\<lambda>y. key y = key r) xs = []"
      using above by (auto simp: filter_empty_conv)
    with True show ?thesis by simp
  next
    case False
    show ?thesis
    proof (cases "key r < key x")
      case True
      then have "filter (\<lambda>y. key y = key r) xs = []"
        using above by (auto simp: filter_empty_conv)
      with True False show ?thesis by simp
    next
      case lt: False
      with False Cons.IH [OF rest] show ?thesis by simp
    qed
  qed
qed

lemma os_put_others:
  "filter (\<lambda>x. key x \<noteq> key r) (os_put key r xs) = filter (\<lambda>x. key x \<noteq> key r) xs"
  by (induction xs) auto

lemma home_wf: "wf_world home"
  by (simp add: wf_world_def os_wf_def example_defs)

section \<open>Replace semantics of put\<close>

text \<open>
  C5. A record written with \<^verbatim>\<open>savePet\<close> or \<^verbatim>\<open>saveTask\<close> is afterwards the only record
  of its store with that id, and it is the record that was written, field by field: of a
  record that had the id before, nothing is left. (The records with other ids are kept,
  \<open>os_put_others\<close>.)
\<close>

theorem put_replaces:
  assumes "wf_world w"
  shows "fst (savePet NoFault pet w) = Resolved () \<and>
         (\<exists>ps. getPets NoFault (snd (savePet NoFault pet w)) = Resolved ps \<and>
               filter (\<lambda>x. pet_id x = pet_id pet) ps = [pet]) \<and>
         fst (saveTask NoFault task w) = Resolved () \<and>
         (\<exists>ts. getTasks NoFault (snd (saveTask NoFault task w)) = Resolved ts \<and>
               filter (\<lambda>x. task_id x = task_id task) ts = [task])"
  using assms
  by (simp add: savePet_def saveTask_def getPets_def getTasks_def openDB_def os_getAll_def
      wf_world_def os_put_same)

theorem put_replaces_witness:
  "wf_world home \<and>
   getPets NoFault (snd (savePet NoFault rex2 home)) = Resolved [rex2, tom] \<and>
   getTasks NoFault (snd (saveTask NoFault pills2 home)) = Resolved [pills2, nails, ears]"
  using put_replaces [OF home_wf, of rex2 pills2]
  by (simp add: savePet_def saveTask_def getPets_def getTasks_def openDB_def os_getAll_def
      example_defs rex2_def pills2_def wf_world_def os_wf_def)

lemma os_wf_distinct: "os_wf key xs \<Longrightarrow> distinct (map key xs)"
  by (simp add: os_wf_def strict_sorted_iff)

lemma os_get_None_iff: "os_get key k xs = None \<longleftrightarrow> (\<forall>x\<in>set xs. key x \<noteq> k)"
  by (auto simp: os_get_def find_None_iff)

lemma os_delete_absent: "os_get key k xs = None \<Longrightarrow> os_delete key k xs = xs"
  by (simp add: os_get_None_iff os_delete_def)

lemma deletePet_cursor_filter:
  "deletePet_cursor k vs store =
     filter (\<lambda>t. \<forall>v\<in>set vs. petId v = k \<longrightarrow> task_id t \<noteq> task_id v) store"
proof (induction vs arbitrary: store)
  case Nil
  then show ?case by simp
next
  case (Cons v vs)
  show ?case
    by (simp add: Cons.IH os_delete_def)
qed

lemma deletePet_cursor_no_reference:
  "filter (\<lambda>t. petId t = k) (deletePet_cursor k store store) = []"
  by (auto simp: deletePet_cursor_filter filter_empty_conv)

lemma deletePet_cursor_exact:
  assumes "os_wf task_id store"
  shows "deletePet_cursor k store store = filter (\<lambda>t. petId t \<noteq> k) store"
proof -
  have d: "distinct (map task_id store)" using assms by (rule os_wf_distinct)
  have "(\<forall>v\<in>set store. petId v = k \<longrightarrow> task_id t \<noteq> task_id v) \<longleftrightarrow> petId t \<noteq> k"
    if "t \<in> set store" for t
    using that d by (auto simp: distinct_map inj_on_def)
  then show ?thesis
    unfolding deletePet_cursor_filter by (intro filter_cong) auto
qed

section \<open>Cascade delete\<close>

text \<open>
  C1. For every id \<open>k\<close>, \<^verbatim>\<open>deletePet(k)\<close> resolves and removes the pet with id \<open>k\<close> and
  every task whose \<^verbatim>\<open>petId\<close> is \<open>k\<close>, and nothing else: afterwards the pets are the
  former pets with another id, \<^verbatim>\<open>getPets()\<close> holds no pet with id \<open>k\<close> and \<^verbatim>\<open>getTasks()\<close>
  no task whose \<^verbatim>\<open>petId\<close> is \<open>k\<close>; in a store with one record per key the tasks are
  the former tasks of the other pets, in their order, and the preferences are as before.
  Both deletions belong to one transaction: when the call fails, it rejects and the whole
  state is as before.
\<close>

theorem deletePet_cascade:
  "fst (deletePet NoFault k w) = Resolved () \<and>
   petsStore (snd (deletePet NoFault k w)) = filter (\<lambda>p. pet_id p \<noteq> k) (petsStore w) \<and>
   getPets NoFault (snd (deletePet NoFault k w)) =
     Resolved (filter (\<lambda>p. pet_id p \<noteq> k) (petsStore w)) \<and>
   localStorage (snd (deletePet NoFault k w)) = localStorage w \<and>
   (\<exists>ps ts. getPets NoFault (snd (deletePet NoFault k w)) = Resolved ps \<and>
            getTasks NoFault (snd (deletePet NoFault k w)) = Resolved ts \<and>
            filter (\<lambda>p. pet_id p = k) ps = [] \<and>
            filter (\<lambda>t. petId t = k) ts = []) \<and>
   (wf_world w \<longrightarrow>
      tasksStore (snd (deletePet NoFault k w)) = filter (\<lambda>t. petId t \<noteq> k) (tasksStore w) \<and>
      getTasks NoFault (snd (deletePet NoFault k w)) =
        Resolved (filter (\<lambda>t. petId t \<noteq> k) (tasksStore w))) \<and>
   deletePet OpenFault k w = (Rejected OpenError, w) \<and>
   deletePet RequestFault k w = (Rejected RequestError, w)"
  by (simp add: deletePet_def getPets_def getTasks_def openDB_def os_getAll_def
      deletePet_cursor_no_reference deletePet_cursor_exact wf_world_def os_delete_def)

theorem deletePet_cascade_witness:
  "wf_world home \<and>
   getPets NoFault home = Resolved [rex, tom] \<and>
   getTasks NoFault home = Resolved [pills, nails, ears] \<and>
   getPets NoFault (snd (deletePet NoFault ''p1'' home)) = Resolved [tom] \<and>
   getTasks NoFault (snd (deletePet NoFault ''p1'' home)) = Resolved [nails]"
proof -
  have p: "filter (\<lambda>p. pet_id p \<noteq> ''p1'') (petsStore home) = [tom]"
    by (simp add: example_defs)
  have t: "filter (\<lambda>t. petId t \<noteq> ''p1'') (tasksStore home) = [nails]"
    by (simp add: example_defs)
  have g: "getPets NoFault home = Resolved [rex, tom]"
    "getTasks NoFault home = Resolved [pills, nails, ears]"
    by (simp_all add: getPets_def getTasks_def openDB_def os_getAll_def home_def)
  from deletePet_cascade [of "''p1''" home] home_wf p t g
  show ?thesis by simp
qed

section \<open>Storage faults\<close>

text \<open>
  C4. The reads do not turn every storage fault into an empty list: when the database
  opens and the \<^verbatim>\<open>getAll\<close> request then fails, the promise returned from inside the
  \<^verbatim>\<open>try\<close> block rejects, and \<^verbatim>\<open>getPets()\<close> and \<^verbatim>\<open>getTasks()\<close> reject with the error
  of the request. (A failed open does give the empty list, and the writes pass both
  kinds of fault on: the two lemmas that follow.)
\<close>

theorem reads_reject_on_request_fault:
  "getPets RequestFault w = Rejected RequestError \<and>
   getTasks RequestFault w = Rejected RequestError"
  by (simp add: getPets_def getTasks_def openDB_def)

lemma reads_degrade_on_open_fault:
  "getPets OpenFault w = Resolved [] \<and> getTasks OpenFault w = Resolved []"
  by (simp add: getPets_def getTasks_def openDB_def)

lemma writes_propagate_faults:
  "savePet OpenFault pet w = (Rejected OpenError, w) \<and>
   savePet RequestFault pet w = (Rejected RequestError, w) \<and>
   saveTask OpenFault task w = (Rejected OpenError, w) \<and>
   saveTask RequestFault task w = (Rejected RequestError, w)"
  by (simp add: savePet_def saveTask_def openDB_def)

section \<open>Full reset\<close>

text \<open>
  C7. \<^verbatim>\<open>clearAllData\<close> completes when nothing fails, and whenever it has resolved,
  \<^verbatim>\<open>getPets()\<close> and \<^verbatim>\<open>getTasks()\<close> give empty lists, \<^verbatim>\<open>getTheme()\<close> gives \<^verbatim>\<open>'light'\<close> and
  \<^verbatim>\<open>getNotificationSettings()\<close> gives \<^verbatim>\<open>false\<close>.
\<close>

theorem clearAllData_resets:
  "fst (clearAllData NoFault w) = Resolved () \<and>
   (\<forall>f w'. clearAllData f w = (Resolved (), w') \<longrightarrow>
      getPets NoFault w' = Resolved [] \<and>
      getTasks NoFault w' = Resolved [] \<and>
      getTheme w' = ''light'' \<and>
      getNotificationSettings w' = False)"
  by (auto simp: clearAllData_def openDB_def getPets_def getTasks_def os_getAll_def
      os_clear_def getTheme_def getNotificationSettings_def THEME_KEY_def
      NOTIFICATIONS_KEY_def Let_def split: if_splits)

theorem clearAllData_resets_witness:
  "getTheme home = ''dark'' \<and> getNotificationSettings home \<and>
   clearAllData NoFault home =
     (Resolved (), \<lparr>petsStore = [], tasksStore = [], localStorage = Map.empty\<rparr>) \<and>
   getPets NoFault (snd (clearAllData NoFault home)) = Resolved [] \<and>
   getTasks NoFault (snd (clearAllData NoFault home)) = Resolved [] \<and>
   getTheme (snd (clearAllData NoFault home)) = ''light'' \<and>
   getNotificationSettings (snd (clearAllData NoFault home)) = False"
proof -
  have c: "clearAllData NoFault home =
     (Resolved (), \<lparr>petsStore = [], tasksStore = [], localStorage = Map.empty\<rparr>)"
    by (simp add: clearAllData_def openDB_def os_clear_def home_def THEME_KEY_def
        NOTIFICATIONS_KEY_def Let_def)
  have g: "getTheme home = ''dark''" "getNotificationSettings home"
    by (simp_all add: getTheme_def getNotificationSettings_def home_def THEME_KEY_def
        NOTIFICATIONS_KEY_def)
  from clearAllData_resets [of home] c g show ?thesis by simp
qed

section \<open>The assistant call\<close>

text \<open>
  C9. For every message \<^verbatim>\<open>askAssistant\<close> resolves with a string, and when the API key is
  empty, the request throws, or the response has no text or an empty text, the string is
  one of the three fixed replies.
\<close>

theorem askAssistant_fallback:
  "(\<exists>s. askAssistant apiKey api message = Resolved s) \<and>
   (apiKey = [] \<or> api message = Throws \<or> api message = Response None
      \<or> api message = Response (Some []) \<longrightarrow>
    askAssistant apiKey api message \<in>
      {Resolved MSG_NO_KEY, Resolved MSG_NO_ANSWER, Resolved MSG_ERROR})"
  by (auto simp: askAssistant_def split: generateContent.splits option.splits)

theorem askAssistant_fallback_witness:
  "askAssistant [] (\<lambda>m. Response (Some ''Woof'')) ''hi'' = Resolved MSG_NO_KEY \<and>
   askAssistant ''key'' (\<lambda>m. Throws) ''hi'' = Resolved MSG_ERROR \<and>
   askAssistant ''key'' (\<lambda>m. Response None) ''hi'' = Resolved MSG_NO_ANSWER \<and>
   askAssistant ''key'' (\<lambda>m. Response (Some [])) ''hi'' = Resolved MSG_NO_ANSWER \<and>
   askAssistant ''key'' (\<lambda>m. Response (Some ''Woof'')) ''hi'' = Resolved ''Woof''"
  using askAssistant_fallback [of "[]" "\<lambda>m. Response (Some ''Woof'')" "''hi''"]
  by (simp add: askAssistant_def)

section \<open>Calendar lemmas\<close>

text \<open>
  \<open>YearFromTime\<close> computes what the standard defines: the year whose first day is the
  last one not after the day of \<open>t\<close>.
\<close>

lemma div_bracket:
  fixes n k :: int
  assumes "0 < k"
  shows "k * (n div k) \<le> n \<and> n < k * (n div k) + k"
proof -
  have "n = k * (n div k) + n mod k" by simp
  moreover have "0 \<le> n mod k" "n mod k < k" using assms by simp_all
  ultimately show ?thesis by linarith
qed

lemma DayFromYear_bounds:
  "146097 * (y - 1970) - 506 \<le> 400 * DayFromYear y \<and>
   400 * DayFromYear y \<le> 146097 * (y - 1970) + 589"
proof -
  define A B C where "A = (y - 1969) div 4" and "B = (y - 1901) div 100"
    and "C = (y - 1601) div 400"
  have a: "4 * A \<le> y - 1969" "y - 1969 < 4 * A + 4"
    unfolding A_def using div_bracket [of 4 "y - 1969"] by simp_all
  have b: "100 * B \<le> y - 1901" "y - 1901 < 100 * B + 100"
    unfolding B_def using div_bracket [of 100 "y - 1901"] by simp_all
  have c: "400 * C \<le> y - 1601" "y - 1601 < 400 * C + 400"
    unfolding C_def using div_bracket [of 400 "y - 1601"] by simp_all
  have eq: "DayFromYear y = 365 * (y - 1970) + A - B + C"
    by (simp add: DayFromYear_def A_def B_def C_def)
  have l: "146097 * (y - 1970) - 506 \<le> 400 * DayFromYear y"
  proof -
    have "400 * A \<ge> 100 * y - 197200" using a(2) by simp
    moreover have "400 * B \<le> 4 * y - 7604" using b(1) by simp
    moreover have "400 * C \<ge> y - 2000" using c(2) by simp
    ultimately show ?thesis unfolding eq by simp
  qed
  have u: "400 * DayFromYear y \<le> 146097 * (y - 1970) + 589"
  proof -
    have "400 * A \<le> 100 * y - 196900" using a(1) by simp
    moreover have "400 * B \<ge> 4 * y - 8000" using b(2) by simp
    moreover have "400 * C \<le> y - 1601" using c(1) by simp
    ultimately show ?thesis unfolding eq by simp
  qed
  from l u show ?thesis by simp
qed

lemma YearFromTime_bracket:
  "DayFromYear (YearFromTime t) \<le> Day t \<and> Day t < DayFromYear (YearFromTime t + 1)"
proof -
  define d where "d = Day t"
  define q where "q = (400 * d) div 146097"
  define y where "y = 1970 + q"
  have q: "146097 * q \<le> 400 * d" "400 * d < 146097 * q + 146097"
    unfolding q_def using div_bracket [of 146097 "400 * d"] by simp_all
  have "400 * DayFromYear (y - 1) \<le> 146097 * q - 145508"
    using DayFromYear_bounds [of "y - 1"] by (simp add: y_def)
  then have "400 * DayFromYear (y - 1) \<le> 400 * d" using q(1) by simp
  then have lo: "DayFromYear (y - 1) \<le> d" by simp
  have "146097 * q + 291688 \<le> 400 * DayFromYear (y + 2)"
    using DayFromYear_bounds [of "y + 2"] by (simp add: y_def)
  then have "400 * d < 400 * DayFromYear (y + 2)" using q(2) by simp
  then have hi: "d < DayFromYear (y + 2)" by simp
  have yft: "YearFromTime t =
          (if d < DayFromYear y then y - 1 else if DayFromYear (y + 1) \<le> d then y + 1 else y)"
    by (simp add: YearFromTime_def d_def y_def q_def Let_def)
  have two: "y + 1 + 1 = y + 2" "y - 1 + 1 = y" by simp_all
  show ?thesis
    unfolding yft d_def [symmetric] using lo hi by (simp add: two)
qed

text \<open>
  Year, month and day of the month determine the day number, and \<open>MakeDay\<close> inverts the
  decomposition; so \<^verbatim>\<open>setDate(getDate() + n)\<close> moves the local day number by \<open>n\<close>.
\<close>

lemma MonthFromTime_range: "0 \<le> MonthFromTime t \<and> MonthFromTime t \<le> 11"
  by (simp add: MonthFromTime_def Let_def)

lemma Day_decompose:
  "DayFromYear (YearFromTime t) + DayFromMonth (MonthFromTime t) (InLeapYear t) + DateFromTime t - 1 = Day t"
  by (simp add: DateFromTime_def DayFromMonth_def DayWithinYear_def Let_def)

lemma MakeDay_shift:
  "MakeDay (YearFromTime t) (MonthFromTime t) (DateFromTime t + n) = Day t + n"
proof -
  have r: "0 \<le> MonthFromTime t" "MonthFromTime t \<le> 11" using MonthFromTime_range by auto
  then have "MonthFromTime t div 12 = 0" "MonthFromTime t mod 12 = MonthFromTime t" by auto
  then show ?thesis
    using Day_decompose [of t] by (simp add: MakeDay_def InLeapYear_def Let_def)
qed




lemma MakeDate_Day:
  "Day (MakeDate (Day t + n) (TimeWithinDay t)) = Day t + n \<and>
   TimeWithinDay (MakeDate (Day t + n) (TimeWithinDay t)) = TimeWithinDay t"
  by (simp add: MakeDate_def Day_def TimeWithinDay_def msPerDay_def)

lemma setDate_addCalendarDays:
  "setDate z T (num_add (getDate z T) (Num F)) = TimeClip (addCalendarDays z T F)"
  by (simp add: setDate_def getDate_def MakeDay_shift Let_def addCalendarDays_def)

lemma addCalendarDays_fixed_offset:
  "addCalendarDays (\<lambda>t isUTC. c) T F = T + F * msPerDay"
  by (simp add: addCalendarDays_def UTC_def LocalTime_def MakeDate_def Day_def
      TimeWithinDay_def algebra_simps)


lemma os_get_Some: "os_get key k xs = Some x \<Longrightarrow> x \<in> set xs \<and> key x = k"
  by (auto simp: os_get_def find_Some_iff)

lemma os_get_unique:
  assumes "os_wf key xs" "os_get key k xs = Some x" "y \<in> set xs" "key y = k"
  shows "y = x"
proof -
  have "distinct (map key xs)" using assms(1) by (simp add: os_wf_def strict_sorted_iff)
  then have "inj_on key (set xs)" by (simp add: distinct_map)
  moreover have "x \<in> set xs" "key x = k" using os_get_Some [OF assms(2)] by auto
  ultimately show ?thesis using assms(3,4) by (auto dest: inj_onD)
qed

lemma os_put_map:
  "os_wf key xs \<Longrightarrow> \<exists>x\<in>set xs. key x = key r \<Longrightarrow>
   os_put key r xs = map (\<lambda>x. if key x = key r then r else x) xs"
proof (induction xs)
  case Nil
  then show ?case by simp
next
  case (Cons x xs)
  have rest: "os_wf key xs" using Cons.prems(1) by (simp add: os_wf_def)
  have above: "\<forall>y\<in>set xs. key x < key y" using Cons.prems(1) by (simp add: os_wf_def)
  show ?case
  proof (cases "key r = key x")
    case True
    have "map (\<lambda>y. if key y = key r then r else y) xs = xs"
    proof (rule map_idI)
      fix y assume "y \<in> set xs"
      then have "key x < key y" using above by simp
      then show "(if key y = key r then r else y) = y" using True by auto
    qed
    with True show ?thesis by simp
  next
    case False
    then have ex: "\<exists>y\<in>set xs. key y = key r" using Cons.prems(2) by auto
    then have "\<not> key r < key x" using above by auto
    with False Cons.IH [OF rest ex] show ?thesis by simp
  qed
qed


section \<open>Completing a task\<close>

text \<open>
  C2, as stated for every stored task, fails: the task that \<^verbatim>\<open>handleAddTask\<close> stores for
  an emptied frequency field has \<^verbatim>\<open>frequencyDays = NaN\<close>; completing it makes
  \<^verbatim>\<open>toISOString\<close> throw on the invalid date, the promise stays pending, and the record
  keeps \<^verbatim>\<open>lastDoneDate = null\<close> and its old \<^verbatim>\<open>nextDueDate\<close>.
\<close>

theorem completeTask_NaN_counterexample:
  "fst (handleAddTask NoFault nanForm 1712440800000 1712440800001 home) = Resolved () \<and>
   os_get task_id ''1712440800000'' (tasksStore nanWorld) = Some nanTask \<and>
   frequencyDays nanTask = NaN \<and>
   completeTask NoFault night ''1712440800000'' nanWorld = (Pending, nanWorld) \<and>
   os_get task_id ''1712440800000''
     (tasksStore (snd (completeTask NoFault night ''1712440800000'' nanWorld))) = Some nanTask \<and>
   lastDoneDate nanTask = None \<and> nextDueDate nanTask = 1712440800001"
proof -
  have i: "Number_toString 1712440800000 = ''1712440800000''" by code_simp
  have n: "newTask nanForm 1712440800000 1712440800001 = Some nanTask"
    by (simp add: newTask_def nanForm_def nanTask_def i)
  have h: "handleAddTask NoFault nanForm 1712440800000 1712440800001 home =
             (Resolved (), home\<lparr>tasksStore := [nanTask, pills, nails, ears]\<rparr>)"
    by (simp add: handleAddTask_def n saveTask_def openDB_def)
       (simp add: home_def nanTask_def pills_def)
  have g: "os_get task_id ''1712440800000'' (tasksStore nanWorld) = Some nanTask"
    by (simp add: nanWorld_def h os_get_def nanTask_def)
  have f: "frequencyDays nanTask = NaN" by (simp add: nanTask_def)
  have c: "completeTask NoFault night ''1712440800000'' nanWorld = (Pending, nanWorld)"
    by (simp add: completeTask_def openDB_def g f getDate_def setDate_def toISOString_def)
  from h g f c show ?thesis by (simp add: nanTask_def)
qed

text \<open>
  C2, amended. For a stored task whose \<^verbatim>\<open>frequencyDays\<close> is a number \<open>F\<close> (not NaN), completed
  at the clock reading \<open>T\<close>, when \<open>T\<close> plus \<open>F\<close> calendar days is a valid time value (at most
  8.64e15 ms from the epoch): \<^verbatim>\<open>completeTask\<close> resolves, and the store then holds exactly
  one record with the id of the task, namely the task with \<^verbatim>\<open>lastDoneDate\<close> set to \<open>T\<close> and
  \<^verbatim>\<open>nextDueDate\<close> set to \<open>T\<close> plus \<open>F\<close> calendar days (\<open>addCalendarDays\<close>: the local date
  advanced by \<open>F\<close> days, the local time of day kept), every other field as before.
\<close>

theorem completeTask_advances:
  assumes wf: "wf_world w"
    and stored: "os_get task_id k (tasksStore w) = Some task"
    and freq: "frequencyDays task = Num F"
    and range: "\<bar>addCalendarDays (LocalTZA h) (clock h) F\<bar> \<le> 8640000000000000"
  shows "fst (completeTask NoFault h k w) = Resolved () \<and>
         (\<exists>ts. getTasks NoFault (snd (completeTask NoFault h k w)) = Resolved ts \<and>
               filter (\<lambda>x. task_id x = k) ts =
                 [task\<lparr>lastDoneDate := Some (clock h),
                       nextDueDate := addCalendarDays (LocalTZA h) (clock h) F\<rparr>])"
proof -
  let ?done = "task\<lparr>lastDoneDate := Some (clock h),
                     nextDueDate := addCalendarDays (LocalTZA h) (clock h) F\<rparr>"
  have key: "task_id ?done = k" using os_get_Some [OF stored] by simp
  have c: "completeTask NoFault h k w =
             (Resolved (), w\<lparr>tasksStore := os_put task_id ?done (tasksStore w)\<rparr>)"
    using stored freq range
    by (simp add: completeTask_def openDB_def setDate_addCalendarDays TimeClip_def
        toISOString_def Let_def)
  have "os_wf task_id (tasksStore w)" using wf by (simp add: wf_world_def)
  then have "filter (\<lambda>x. task_id x = task_id ?done) (os_put task_id ?done (tasksStore w)) = [?done]"
    by (rule os_put_same)
  with key c show ?thesis
    by (simp add: getTasks_def openDB_def os_getAll_def)
qed

theorem completeTask_advances_witness:
  "wf_world home \<and> os_get task_id ''t1'' (tasksStore home) = Some pills \<and>
   frequencyDays pills = Num 30 \<and>
   \<bar>addCalendarDays (LocalTZA night) (clock night) 30\<bar> \<le> 8640000000000000 \<and>
   getTasks NoFault (snd (completeTask NoFault night ''t1'' home)) =
     Resolved [pills\<lparr>lastDoneDate := Some 1712440800000, nextDueDate := 1715032800000\<rparr>,
               nails, ears]"
proof -
  have g: "os_get task_id ''t1'' (tasksStore home) = Some pills"
    by (simp add: os_get_def example_defs)
  have f: "frequencyDays pills = Num 30" by (simp add: pills_def)
  have a: "addCalendarDays (LocalTZA night) (clock night) 30 = 1715032800000"
    by (simp add: night_def moscow_def addCalendarDays_fixed_offset msPerDay_def)
  have r: "\<bar>addCalendarDays (LocalTZA night) (clock night) 30\<bar> \<le> 8640000000000000"
    by (simp add: a)
  have t: "tasksStore (snd (completeTask NoFault night ''t1'' home)) =
     [pills\<lparr>lastDoneDate := Some 1712440800000, nextDueDate := 1715032800000\<rparr>, nails, ears]"
    by (simp add: completeTask_def openDB_def g toISOString_def setDate_addCalendarDays a
        TimeClip_def Let_def pills_def) (simp add: example_defs night_def)
  from completeTask_advances [OF home_wf g f r] home_wf g f r show ?thesis
    by (simp add: getTasks_def openDB_def os_getAll_def t)
qed

text \<open>
  C10. \<^verbatim>\<open>completeTask\<close> leaves the pets and the preferences as they are, and the task
  store is either unchanged or differs only in the \<^verbatim>\<open>lastDoneDate\<close> and \<^verbatim>\<open>nextDueDate\<close>
  of the task with the given id: its \<^verbatim>\<open>id\<close>, \<^verbatim>\<open>petId\<close>, \<^verbatim>\<open>type\<close>, \<^verbatim>\<open>title\<close> and
  \<^verbatim>\<open>frequencyDays\<close>, and every other task, are untouched.
\<close>

theorem completeTask_frame:
  assumes wf: "wf_world w"
  shows "petsStore (snd (completeTask f h k w)) = petsStore w \<and>
         localStorage (snd (completeTask f h k w)) = localStorage w \<and>
         (tasksStore (snd (completeTask f h k w)) = tasksStore w \<or>
          (\<exists>n. tasksStore (snd (completeTask f h k w)) =
                 map (\<lambda>t. if task_id t = k
                           then t\<lparr>lastDoneDate := Some (clock h), nextDueDate := n\<rparr>
                           else t)
                     (tasksStore w)))"
proof (cases "os_get task_id k (tasksStore w)")
  case None
  then show ?thesis
    by (simp add: completeTask_def openDB_def)
next
  case (Some task)
  have owf: "os_wf task_id (tasksStore w)" using wf by (simp add: wf_world_def)
  have mem: "task \<in> set (tasksStore w)" "task_id task = k" using os_get_Some [OF Some] by auto
  have upd: "os_put task_id (task\<lparr>lastDoneDate := Some (clock h), nextDueDate := n\<rparr>) (tasksStore w) =
             map (\<lambda>t. if task_id t = k
                       then t\<lparr>lastDoneDate := Some (clock h), nextDueDate := n\<rparr>
                       else t)
                 (tasksStore w)" for n
  proof -
    let ?r = "task\<lparr>lastDoneDate := Some (clock h), nextDueDate := n\<rparr>"
    have "\<exists>x\<in>set (tasksStore w). task_id x = task_id ?r" using mem by auto
    from os_put_map [OF owf this]
    have "os_put task_id ?r (tasksStore w) =
            map (\<lambda>x. if task_id x = task_id ?r then ?r else x) (tasksStore w)" .
    also have "\<dots> = map (\<lambda>t. if task_id t = k
                       then t\<lparr>lastDoneDate := Some (clock h), nextDueDate := n\<rparr>
                       else t) (tasksStore w)"
    proof (rule map_cong [OF refl])
      fix t assume t: "t \<in> set (tasksStore w)"
      show "(if task_id t = task_id ?r then ?r else t) =
            (if task_id t = k then t\<lparr>lastDoneDate := Some (clock h), nextDueDate := n\<rparr> else t)"
        using os_get_unique [OF owf Some t] mem by auto
    qed
    finally show ?thesis .
  qed
  show ?thesis
    using Some upd
    by (auto simp: completeTask_def openDB_def Let_def split: option.splits)
qed

theorem completeTask_frame_witness:
  "wf_world home \<and>
   petsStore (snd (completeTask NoFault night ''t1'' home)) = [rex, tom] \<and>
   tasksStore (snd (completeTask NoFault night ''t1'' home)) =
     [pills\<lparr>lastDoneDate := Some 1712440800000, nextDueDate := 1715032800000\<rparr>, nails, ears]"
proof -
  have g: "os_get task_id ''t1'' (tasksStore home) = Some pills"
    by (simp add: os_get_def example_defs)
  have a: "addCalendarDays (LocalTZA night) (clock night) 30 = 1715032800000"
    by (simp add: night_def moscow_def addCalendarDays_fixed_offset msPerDay_def)
  have t: "tasksStore (snd (completeTask NoFault night ''t1'' home)) =
     [pills\<lparr>lastDoneDate := Some 1712440800000, nextDueDate := 1715032800000\<rparr>, nails, ears]"
    by (simp add: completeTask_def openDB_def g toISOString_def setDate_addCalendarDays a
        TimeClip_def Let_def pills_def) (simp add: example_defs night_def)
  from completeTask_frame [OF home_wf, of NoFault night "''t1''"] t home_wf show ?thesis
    by (simp add: home_def)
qed


section \<open>Absent ids\<close>

text \<open>
  C3, as stated, fails for \<^verbatim>\<open>deletePet\<close>: the id \<^verbatim>\<open>p1\<close> is the id of no stored record,
  some task still refers to it as its \<^verbatim>\<open>petId\<close>, and \<^verbatim>\<open>deletePet('p1')\<close> removes that
  task. (Such a store arises from \<^verbatim>\<open>savePet\<close> and \<^verbatim>\<open>saveTask\<close> alone, \<open>orphaned_reachable\<close>.)
\<close>

theorem deletePet_absent_pet_counterexample:
  "os_get pet_id ''p1'' (petsStore orphaned) = None \<and>
   os_get task_id ''p1'' (tasksStore orphaned) = None \<and>
   fst (deletePet NoFault ''p1'' orphaned) = Resolved () \<and>
   tasksStore (snd (deletePet NoFault ''p1'' orphaned)) = [nails] \<and>
   snd (deletePet NoFault ''p1'' orphaned) \<noteq> orphaned"
proof -
  have t: "tasksStore (snd (deletePet NoFault ''p1'' orphaned)) = [nails]"
    by (simp add: deletePet_def openDB_def os_delete_def orphaned_def example_defs)
  have "tasksStore orphaned \<noteq> [nails]" by (simp add: orphaned_def)
  with t have "snd (deletePet NoFault ''p1'' orphaned) \<noteq> orphaned" by metis
  with t show ?thesis
    by (simp add: os_get_def orphaned_def example_defs deletePet_def openDB_def)
qed

text \<open>
  C3, amended. When no task has the id, \<^verbatim>\<open>deleteTask\<close> and \<^verbatim>\<open>completeTask\<close> resolve and
  leave the whole state as it is. When no pet has the id, \<^verbatim>\<open>deletePet\<close> resolves, leaves
  the pets and the preferences as they are, and removes exactly the tasks whose \<^verbatim>\<open>petId\<close>
  is the id; when no task refers to the id, the whole state is unchanged.
\<close>

theorem absent_id_noop:
  assumes wf: "wf_world w"
  shows "(os_get task_id k (tasksStore w) = None \<longrightarrow>
            deleteTask NoFault k w = (Resolved (), w) \<and>
            completeTask NoFault h k w = (Resolved (), w)) \<and>
         (os_get pet_id k (petsStore w) = None \<longrightarrow>
            fst (deletePet NoFault k w) = Resolved () \<and>
            petsStore (snd (deletePet NoFault k w)) = petsStore w \<and>
            localStorage (snd (deletePet NoFault k w)) = localStorage w \<and>
            tasksStore (snd (deletePet NoFault k w)) =
              filter (\<lambda>t. petId t \<noteq> k) (tasksStore w) \<and>
            ((\<forall>t\<in>set (tasksStore w). petId t \<noteq> k) \<longrightarrow>
               deletePet NoFault k w = (Resolved (), w)))"
proof -
  have owf: "os_wf task_id (tasksStore w)" using wf by (simp add: wf_world_def)
  have c: "deletePet_cursor k (tasksStore w) (tasksStore w) =
             filter (\<lambda>t. petId t \<noteq> k) (tasksStore w)"
    using owf by (rule deletePet_cursor_exact)
  have same: "(\<forall>t\<in>set (tasksStore w). petId t \<noteq> k) \<Longrightarrow>
              filter (\<lambda>t. petId t \<noteq> k) (tasksStore w) = tasksStore w"
    by simp
  show ?thesis
    using c same
    by (auto simp: deleteTask_def completeTask_def deletePet_def openDB_def os_delete_absent)
qed

theorem absent_id_noop_witness:
  "wf_world home \<and> os_get task_id ''t9'' (tasksStore home) = None \<and>
   os_get pet_id ''t9'' (petsStore home) = None \<and>
   deleteTask NoFault ''t9'' home = (Resolved (), home) \<and>
   completeTask NoFault night ''t9'' home = (Resolved (), home) \<and>
   deletePet NoFault ''t9'' home = (Resolved (), home)"
proof -
  have g: "os_get task_id ''t9'' (tasksStore home) = None"
    "os_get pet_id ''t9'' (petsStore home) = None"
    "\<forall>t\<in>set (tasksStore home). petId t \<noteq> ''t9''"
    by (simp_all add: os_get_def example_defs)
  from absent_id_noop [OF home_wf, of "''t9''" night] g home_wf show ?thesis by simp
qed

section \<open>The dashboard filter\<close>





section \<open>Creating a task\<close>

text \<open>
  What the handler does guarantee: the new task is due at the clock reading, has never
  been done, and carries the frequency of the form unchanged.
\<close>

lemma newTask_fields:
  "newTask form idNow now = Some t \<Longrightarrow>
   nextDueDate t = now \<and> lastDoneDate t = None \<and> frequencyDays t = newTaskFreq form \<and>
   showAddTask form = Some (petId t) \<and> title t = newTaskTitle form"
  by (auto simp: newTask_def split: option.splits if_splits)

lemma zero_id: "Number_toString 1712440800000 = ''1712440800000''"
  by code_simp

text \<open>
  C8. The creation path does not enforce a frequency of at least 1: with the title filled
  in and \<^verbatim>\<open>0\<close> typed into the frequency field, \<^verbatim>\<open>handleAddTask\<close> stores a task with
  \<^verbatim>\<open>frequencyDays = 0\<close> (its \<^verbatim>\<open>nextDueDate\<close> is the clock reading and its \<^verbatim>\<open>lastDoneDate\<close>
  is \<^verbatim>\<open>null\<close>).
\<close>

theorem handleAddTask_zero_frequency:
  "fst (handleAddTask NoFault zeroFreqForm 1712440800000 1712440800001 home) = Resolved () \<and>
   os_get task_id ''1712440800000''
     (tasksStore (snd (handleAddTask NoFault zeroFreqForm 1712440800000 1712440800001 home))) =
     Some \<lparr>task_id = ''1712440800000'', petId = ''p1'', task_type = PILL, title = ''Pills'',
           frequencyDays = Num 0, lastDoneDate = None, nextDueDate = 1712440800001\<rparr>"
  by (simp add: handleAddTask_def newTask_def zeroFreqForm_def zero_id saveTask_def openDB_def
      os_get_def example_defs)

text \<open>
  An emptied frequency field gives NaN; completing such a task throws inside the request
  handler and the promise of \<^verbatim>\<open>completeTask\<close> never settles.
\<close>

lemma completeTask_NaN_pending:
  "os_get task_id k (tasksStore w) = Some task \<Longrightarrow> frequencyDays task = NaN \<Longrightarrow>
   completeTask NoFault h k w = (Pending, w)"
  by (simp add: completeTask_def openDB_def getDate_def setDate_def toISOString_def)

section \<open>Runs on concrete input\<close>

lemma jan31_plus_one_day:
  "setDate utc jan31 (num_add (getDate utc jan31) (Num 1)) = Some 1706788800000 \<and>
   (MonthFromTime jan31, DateFromTime jan31) = (0, 31) \<and>
   (MonthFromTime 1706788800000, DateFromTime 1706788800000) = (1, 1)"
  by code_simp

lemma today_view_example:
  "filteredTasks FilterToday night [ears, pills, nails] = [ears, pills]"
  by code_simp

lemma orphaned_reachable:
  "tasksStore (snd (saveTask NoFault nails (snd (saveTask NoFault pills
     (snd (savePet NoFault tom \<lparr>petsStore = [], tasksStore = [], localStorage = Map.empty\<rparr>))))))
   = tasksStore orphaned \<and>
   petsStore (snd (saveTask NoFault nails (snd (saveTask NoFault pills
     (snd (savePet NoFault tom \<lparr>petsStore = [], tasksStore = [], localStorage = Map.empty\<rparr>))))))
   = petsStore orphaned"
  by (simp add: saveTask_def savePet_def openDB_def orphaned_def example_defs)

text \<open>
  Calendar days are not elapsed days: over the change to summer time, one calendar day
  later at the same local time (13:00) is 23 hours later.
\<close>

lemma calendar_days_are_not_elapsed_days:
  "setDate berlin 1711800000000 (num_add (getDate berlin 1711800000000) (Num 1)) =
     Some (1711800000000 + 23 * 3600000) \<and>
   TimeWithinDay (LocalTime berlin 1711800000000) = 13 * 3600000 \<and>
   TimeWithinDay (LocalTime berlin (1711800000000 + 23 * 3600000)) = 13 * 3600000 \<and>
   Day (LocalTime berlin (1711800000000 + 23 * 3600000)) = Day (LocalTime berlin 1711800000000) + 1"
  by code_simp


section \<open>The store invariant\<close>

text \<open>
  The empty database satisfies \<open>wf_world\<close> and every operation keeps it, whatever the
  fault: one record per key, in key order.
\<close>

lemma deletePet_cursor_wf:
  "os_wf task_id store \<Longrightarrow> os_wf task_id (deletePet_cursor k vs store)"
  by (simp add: deletePet_cursor_filter os_wf_def sorted_wrt_map sorted_wrt_filter)

lemma wf_world_empty:
  "wf_world \<lparr>petsStore = [], tasksStore = [], localStorage = Map.empty\<rparr>"
  by (simp add: wf_world_def os_wf_def)

lemma wf_world_preserved:
  assumes "wf_world w"
  shows "wf_world (snd (savePet f pet w))"
    and "wf_world (snd (saveTask f task w))"
    and "wf_world (snd (deleteTask f k w))"
    and "wf_world (snd (deletePet f k w))"
    and "wf_world (snd (completeTask f h k w))"
    and "wf_world (snd (clearAllData f w))"
    and "wf_world (snd (handleAddTask f form idNow now w))"
  using assms
  by (auto simp: wf_world_def savePet_def saveTask_def deleteTask_def deletePet_def
      completeTask_def clearAllData_def handleAddTask_def openDB_def os_clear_def Let_def
      os_put_wf os_delete_wf deletePet_cursor_wf os_wf_def [of _ "[]"]
      split: option.splits)

end
